theory Spec2Isabelle
  imports Complex_Main "HOL-Library.Word"
begin

section \<open>The segmentation pipeline driver (bin/main.py)\<close>

text \<open>
  The driver \<^verbatim>\<open>main\<close> orchestrates collaborators that live in other modules
  (\<^verbatim>\<open>putil\<close>, \<^verbatim>\<open>sitk\<close>, \<^verbatim>\<open>sklearn\<close>, \<^verbatim>\<open>pymia\<close>). The model follows the
  driver statement by statement. Every effect of the driver is written into an explicit
  state: the two random generators, the statistics lists of \<^verbatim>\<open>putil\<close>, the calls made
  to batch preprocessing and to the classifier, the printed reports, the files written and
  the evaluator's records. A Python exception raised by the driver itself is a value
  \<open>Inl e\<close>; a completed run is \<open>Inr\<close> of its final state.
\<close>

subsection \<open>Data model\<close>

datatype BrainImageTypes = T1w | T2w | GroundTruth | BrainMask | RegistrationTransform

definition LOADING_KEYS :: "BrainImageTypes list" where
  "LOADING_KEYS = [T1w, T2w, GroundTruth, BrainMask, RegistrationTransform]"

datatype py_error = IndexError | KeyError | ValueError

text \<open>
  A two-dimensional numpy array: its column count (\<^verbatim>\<open>shape[1]\<close>) and its rows. A
  subject's \<^verbatim>\<open>feature_matrix\<close> is the pair of such an array and the column of labels,
  read in the driver as \<^verbatim>\<open>feature_matrix[0]\<close> and \<^verbatim>\<open>feature_matrix[1]\<close>.
\<close>

record ndarray2 =
  shape1 :: nat
  rows :: "real list list"

text \<open>
  The attributes of a subject that the driver reads. The attribute \<^verbatim>\<open>id_\<close> is named
  \<open>img_id\<close> here, since a name may not end in an underscore.
\<close>

record ('v, 'p) BrainImage =
  img_id :: string
  images :: "BrainImageTypes \<rightharpoonup> 'v"
  image_properties :: 'p
  feature_matrix :: "ndarray2 \<times> int list"

text \<open>
  The settings the driver fixes at its top (the dictionary \<^verbatim>\<open>pre_process_params\<close>, the
  plot switches and the two method choices). They are literals in the source, meant to be
  edited between runs; \<open>source_config\<close> holds the values as committed.
\<close>

record config =
  skullstrip_pre :: bool
  normalization_pre :: bool
  artifact_pre :: bool
  registration_pre :: bool
  coordinates_feature :: bool
  intensity_feature :: bool
  gradient_intensity_feature :: bool
  plot_slice :: bool
  plot_hist :: bool
  norm_method_choice :: string
  artifact_method_choice :: string

definition source_config :: config where
  "source_config =
     \<lparr>skullstrip_pre = True, normalization_pre = False, artifact_pre = False,
      registration_pre = False, coordinates_feature = True, intensity_feature = True,
      gradient_intensity_feature = True, plot_slice = False, plot_hist = True,
      norm_method_choice = ''z'', artifact_method_choice = ''zero frequencies''\<rparr>"

definition pre_process_params :: "config \<Rightarrow> (string \<rightharpoonup> bool)" where
  "pre_process_params cfg =
     [''skullstrip_pre'' \<mapsto> skullstrip_pre cfg,
      ''normalization_pre'' \<mapsto> normalization_pre cfg,
      ''artifact_pre'' \<mapsto> artifact_pre cfg,
      ''registration_pre'' \<mapsto> registration_pre cfg,
      ''coordinates_feature'' \<mapsto> coordinates_feature cfg,
      ''intensity_feature'' \<mapsto> intensity_feature cfg,
      ''gradient_intensity_feature'' \<mapsto> gradient_intensity_feature cfg]"

text \<open>Lines 87 to 98: a method is replaced by its neutral value when its switch is off.\<close>

definition norm_method :: "config \<Rightarrow> string" where
  "norm_method cfg = (if \<not> normalization_pre cfg then ''no'' else norm_method_choice cfg)"

definition artifact_method :: "config \<Rightarrow> string" where
  "artifact_method cfg = (if \<not> artifact_pre cfg then ''none'' else artifact_method_choice cfg)"

subsection \<open>Collaborators\<close>

text \<open>
  The functions of other modules that the driver calls, taken as parameters: nothing is
  assumed of them beyond being functions of their arguments and, where they may draw random
  numbers, of the state of the two generators (\<^verbatim>\<open>random\<close> and \<^verbatim>\<open>numpy.random\<close>),
  which they return updated.
  \<^item> \<open>crawler_data dir\<close>: the subjects found under a directory
    (\<^verbatim>\<open>FileSystemDataCrawler(dir, LOADING_KEYS, ...).data\<close>);
  \<^item> \<open>pre_process\<close>: preprocessing and feature extraction of one subject, from the atlas
    directory, the crawled entry, the parameter dictionary, the normalization and the
    artifact method; it yields the processed subject and the entries it adds to the two
    statistics lists;
  \<^item> \<open>forest_fit\<close>, \<open>forest_predict\<close>, \<open>forest_predict_proba\<close>: the random forest, with
    its three hyperparameters \<^verbatim>\<open>max_features\<close>, \<^verbatim>\<open>n_estimators\<close>, \<^verbatim>\<open>max_depth\<close>;
  \<^item> \<open>convert_labels\<close>, \<open>convert_probabilities\<close>:
    \<^verbatim>\<open>NumpySimpleITKImageBridge.convert\<close> on a label array and on a probability array;
  \<^item> \<open>post_process\<close>: post-processing of one subject's prediction.
\<close>

record ('raw, 'v, 'p, 's, 'm, 'g) collaborators =
  seed_random :: "int \<Rightarrow> 'g"
  seed_numpy :: "int \<Rightarrow> 'g"
  crawler_data :: "string \<Rightarrow> 'raw list"
  pre_process ::
    "string \<Rightarrow> 'raw \<Rightarrow> (string \<rightharpoonup> bool) \<Rightarrow> string \<Rightarrow> string \<Rightarrow> 'g \<times> 'g
       \<Rightarrow> (('v, 'p) BrainImage \<times> 's list \<times> 's list) \<times> ('g \<times> 'g)"
  forest_fit :: "nat \<Rightarrow> nat \<Rightarrow> nat \<Rightarrow> ndarray2 \<Rightarrow> int list \<Rightarrow> 'g \<times> 'g \<Rightarrow> 'm \<times> ('g \<times> 'g)"
  forest_predict :: "'m \<Rightarrow> ndarray2 \<Rightarrow> int list"
  forest_predict_proba :: "'m \<Rightarrow> ndarray2 \<Rightarrow> real list list"
  convert_labels :: "8 word list \<Rightarrow> 'p \<Rightarrow> 'v"
  convert_probabilities :: "real list list \<Rightarrow> 'p \<Rightarrow> 'v"
  post_process :: "('v, 'p) BrainImage \<Rightarrow> 'v \<Rightarrow> 'v \<Rightarrow> (string \<rightharpoonup> bool) \<Rightarrow> 'v"

subsection \<open>The state the driver acts on\<close>

datatype 'm classifier_call =
    Fit nat nat nat ndarray2 "int list"
  | Predict 'm ndarray2
  | PredictProba 'm ndarray2

record batch_call =
  call_params :: "string \<rightharpoonup> bool"
  call_norm_method :: string
  call_artifact_method :: string
  call_multi_process :: bool

record ('v, 's, 'm, 'g) world =
  rng :: "'g \<times> 'g"
  feature_mean_intensities :: "'s list"
  feature_std_intensities :: "'s list"
  batch_calls :: "batch_call list"
  printed :: "(string \<times> 's list \<times> 's list) list"
  written :: "('v \<times> string \<times> bool) list"
  classifier_calls :: "'m classifier_call list"
  evaluations :: "('v \<times> 'v \<times> string) list"

text \<open>
  What a run starts from and cannot choose: the states of the two generators, whatever the
  statistics lists of \<^verbatim>\<open>putil\<close> hold, and the clock (the time stamp that
  \<^verbatim>\<open>datetime.now().strftime\<close> will give).
\<close>

record ('s, 'g) environment =
  rng0 :: "'g \<times> 'g"
  mean0 :: "'s list"
  std0 :: "'s list"
  now :: string

definition initial_world :: "('s, 'g) environment \<Rightarrow> ('v, 's, 'm, 'g) world" where
  "initial_world env =
     \<lparr>rng = rng0 env, feature_mean_intensities = mean0 env, feature_std_intensities = std0 env,
      batch_calls = [], printed = [], written = [], classifier_calls = [], evaluations = []\<rparr>"

subsection \<open>Python primitives\<close>

definition bind_err :: "'e + 'a \<Rightarrow> ('a \<Rightarrow> 'e + 'b) \<Rightarrow> 'e + 'b" where
  "bind_err m f = (case m of Inl e \<Rightarrow> Inl e | Inr x \<Rightarrow> f x)"

definition py_index :: "'a list \<Rightarrow> nat \<Rightarrow> py_error + 'a" where
  "py_index xs i = (if i < length xs then Inr (xs ! i) else Inl IndexError)"

definition dict_get :: "('k \<rightharpoonup> 'a) \<Rightarrow> 'k \<Rightarrow> py_error + 'a" where
  "dict_get d k = (case d k of None \<Rightarrow> Inl KeyError | Some x \<Rightarrow> Inr x)"

text \<open>
  \<^verbatim>\<open>os.path.join\<close> of two components on POSIX: an absolute second component replaces
  the first; otherwise the two are joined by one separator unless the first is empty or
  already ends in one.
\<close>

definition os_path_join :: "string \<Rightarrow> string \<Rightarrow> string" where
  "os_path_join a b =
     (if b \<noteq> [] \<and> hd b = CHR ''/'' then b
      else if a = [] \<or> last a = CHR ''/'' then a @ b
      else a @ ''/'' @ b)"

text \<open>
  \<^verbatim>\<open>np.concatenate\<close> along the first axis: it raises \<^verbatim>\<open>ValueError\<close> on an empty
  list of arrays and on arrays whose column counts differ.
\<close>

definition np_concatenate2 :: "ndarray2 list \<Rightarrow> py_error + ndarray2" where
  "np_concatenate2 as =
     (case as of
        [] \<Rightarrow> Inl ValueError
      | a # bs \<Rightarrow>
          if list_all (\<lambda>b. shape1 b = shape1 a) bs
          then Inr \<lparr>shape1 = shape1 a, rows = concat (map rows as)\<rparr>
          else Inl ValueError)"

definition np_concatenate1 :: "int list list \<Rightarrow> py_error + int list" where
  "np_concatenate1 ls = (if ls = [] then Inl ValueError else Inr (concat ls))"

text \<open>\<^verbatim>\<open>astype(np.uint8)\<close>: each label is reduced modulo 256.\<close>

definition astype_uint8 :: "int list \<Rightarrow> 8 word list" where
  "astype_uint8 ls = map word_of_int ls"

subsection \<open>The statistics lists and batch preprocessing\<close>

text \<open>
  Modelled from the spec: \<^verbatim>\<open>putil.init_global_variable\<close> is not part of the driver.
  The spec has the statistics accumulators reset at the start of a pass, and the driver's
  own comments say the call initialises \<^verbatim>\<open>feature_mean_intensities\<close> and
  \<^verbatim>\<open>feature_std_intensities\<close> (line 74) and resets the mean and std lists for the
  test procedure (line 154): both lists become empty. The flag \<^verbatim>\<open>evaluate_BraTS\<close>,
  which the same call initialises and the driver sets at line 80, is read only inside
  \<^verbatim>\<open>putil\<close> and is not part of this state: it is fixed within each pass, and the
  two passes already differ in their parameter dictionary.
\<close>

definition init_global_variable :: "('v, 's, 'm, 'g) world \<Rightarrow> ('v, 's, 'm, 'g) world" where
  "init_global_variable w = w\<lparr>feature_mean_intensities := [], feature_std_intensities := []\<rparr>"

text \<open>
  Modelled from the spec: \<^verbatim>\<open>putil.pre_process_batch\<close> is not part of the driver.
  Following the spec's ImageBatchProcessor, it processes the subjects one by one in input
  order (the driver always passes \<^verbatim>\<open>multi_process=False\<close>), returns the processed
  subjects in that order, and each subject's feature extraction appends its entries to the
  two statistics lists. The generators' state is handed from one subject to the next.
\<close>

fun pre_process_all ::
  "('raw, 'v, 'p, 's, 'm, 'g) collaborators \<Rightarrow> string \<Rightarrow> (string \<rightharpoonup> bool) \<Rightarrow> string \<Rightarrow> string
     \<Rightarrow> 'raw list \<Rightarrow> ('v, 's, 'm, 'g) world
     \<Rightarrow> ('v, 'p) BrainImage list \<times> ('v, 's, 'm, 'g) world" where
  "pre_process_all ext atlas params nm am [] w = ([], w)"
| "pre_process_all ext atlas params nm am (d # ds) w =
     (case pre_process ext atlas d params nm am (rng w) of
        ((img, ms, ss), g) \<Rightarrow>
          (case pre_process_all ext atlas params nm am ds
                  (w\<lparr>rng := g,
                     feature_mean_intensities := feature_mean_intensities w @ ms,
                     feature_std_intensities := feature_std_intensities w @ ss\<rparr>) of
             (imgs, w') \<Rightarrow> (img # imgs, w')))"

definition pre_process_batch ::
  "('raw, 'v, 'p, 's, 'm, 'g) collaborators \<Rightarrow> string \<Rightarrow> 'raw list \<Rightarrow> (string \<rightharpoonup> bool)
     \<Rightarrow> string \<Rightarrow> string \<Rightarrow> bool \<Rightarrow> ('v, 's, 'm, 'g) world
     \<Rightarrow> ('v, 'p) BrainImage list \<times> ('v, 's, 'm, 'g) world" where
  "pre_process_batch ext atlas data params nm am mp w =
     pre_process_all ext atlas params nm am data
       (w\<lparr>batch_calls := batch_calls w @
            [\<lparr>call_params = params, call_norm_method = nm, call_artifact_method = am,
              call_multi_process = mp\<rparr>]\<rparr>)"

text \<open>
  What a batch contributes to the statistics lists, as a function of the subjects and of
  the generators' state it starts from: the entries of each subject, in subject order.
\<close>

fun batch_statistics ::
  "('raw, 'v, 'p, 's, 'm, 'g) collaborators \<Rightarrow> string \<Rightarrow> (string \<rightharpoonup> bool) \<Rightarrow> string \<Rightarrow> string
     \<Rightarrow> 'raw list \<Rightarrow> 'g \<times> 'g \<Rightarrow> 's list \<times> 's list" where
  "batch_statistics ext atlas params nm am [] g = ([], [])"
| "batch_statistics ext atlas params nm am (d # ds) g =
     (case pre_process ext atlas d params nm am g of
        ((img, ms, ss), g') \<Rightarrow>
          (case batch_statistics ext atlas params nm am ds g' of
             (ms', ss') \<Rightarrow> (ms @ ms', ss @ ss')))"

subsection \<open>The training pass\<close>

text \<open>
  Lines 104 to 129, the inspection plots. The figures themselves are outside the modelled
  state; what remains of the block is the subjects and volumes it reads, each of which
  raises when absent.
\<close>

definition plots :: "config \<Rightarrow> ('v, 'p) BrainImage list \<Rightarrow> py_error + unit" where
  "plots cfg imgs =
     bind_err
       (if plot_slice cfg
        then bind_err (py_index imgs 0) (\<lambda>img.
             bind_err (dict_get (images img) T1w) (\<lambda>_. Inr ()))
        else Inr ())
       (\<lambda>_. if plot_hist cfg
             then bind_err (py_index imgs 0) (\<lambda>img.
                  bind_err (dict_get (images img) T1w) (\<lambda>_.
                  bind_err (dict_get (images img) BrainMask) (\<lambda>_.
                  bind_err (dict_get (images img) T2w) (\<lambda>_. Inr ()))))
             else Inr ())"

text \<open>
  Lines 131 to 136, the export of the preprocessed volumes. A written file is the triple of
  the volume, its path and the compression flag of \<^verbatim>\<open>sitk.WriteImage\<close>.
\<close>

definition save_to :: "string \<Rightarrow> string \<Rightarrow> string \<Rightarrow> string" where
  "save_to nm ident suffix =
     os_path_join ''./mia-result/norm images/'' (nm @ ''-norm_'' @ ident @ suffix)"

fun export_images ::
  "string \<Rightarrow> ('v, 'p) BrainImage list \<Rightarrow> ('v, 's, 'm, 'g) world
     \<Rightarrow> py_error + ('v, 's, 'm, 'g) world" where
  "export_images nm [] w = Inr w"
| "export_images nm (img # imgs) w =
     (let save_to_t1w = save_to nm (img_id img) ''_T1w.nii.gz'';
          save_to_t2w = save_to nm (img_id img) ''_T2w.nii.gz''
      in bind_err (dict_get (images img) T1w) (\<lambda>v1.
         bind_err (dict_get (images img) T1w) (\<lambda>v2.
         export_images nm imgs
           (w\<lparr>written := written w @ [(v1, save_to_t1w, False), (v2, save_to_t2w, False)]\<rparr>))))"

text \<open>
  Lines 138 to 153 and 192 to 207, the report of a pass. The printed table is the
  element-wise average of the entries of the two statistics lists, so a report is recorded
  as the pass name with the two lists it averages. On an empty list \<^verbatim>\<open>np.sum\<close> yields
  a scalar, and indexing it as \<^verbatim>\<open>mean[w, i]\<close> raises \<^verbatim>\<open>IndexError\<close>.
\<close>

definition print_report ::
  "string \<Rightarrow> ('v, 's, 'm, 'g) world \<Rightarrow> py_error + ('v, 's, 'm, 'g) world" where
  "print_report pass w =
     (if feature_mean_intensities w = [] \<or> feature_std_intensities w = [] then Inl IndexError
      else Inr (w\<lparr>printed := printed w @
                    [(pass, feature_mean_intensities w, feature_std_intensities w)]\<rparr>))"

text \<open>
  The locals of the training pass that the rest of the run uses. The label column is kept
  as the list of its entries, which \<^verbatim>\<open>squeeze\<close> leaves as they are.
\<close>

record ('v, 'p, 's, 'm, 'g) trained =
  t_images :: "('v, 'p) BrainImage list"
  t_data_train :: ndarray2
  t_labels_train :: "int list"
  t_forest :: 'm
  t_world :: "('v, 's, 'm, 'g) world"

definition training ::
  "config \<Rightarrow> ('raw, 'v, 'p, 's, 'm, 'g) collaborators \<Rightarrow> string \<Rightarrow> string
     \<Rightarrow> ('v, 's, 'm, 'g) world \<Rightarrow> py_error + ('v, 'p, 's, 'm, 'g) trained" where
  "training cfg ext data_atlas_dir data_train_dir w =
     (case pre_process_batch ext data_atlas_dir (crawler_data ext data_train_dir)
             (pre_process_params cfg) (norm_method cfg) ''none'' False
             (init_global_variable w) of
        (imgs, w1) \<Rightarrow>
          bind_err (plots cfg imgs) (\<lambda>_.
          bind_err (export_images (norm_method cfg) imgs w1) (\<lambda>w2.
          bind_err (print_report ''training'' w2) (\<lambda>w3.
          bind_err (np_concatenate2 (map (\<lambda>img. fst (feature_matrix img)) imgs)) (\<lambda>data_train.
          bind_err (np_concatenate1 (map (\<lambda>img. snd (feature_matrix img)) imgs)) (\<lambda>labels_train.
          bind_err (py_index imgs 0) (\<lambda>img0.
            (case forest_fit ext (shape1 (fst (feature_matrix img0))) 20 25
                    data_train labels_train (rng w3) of
               (forest, g) \<Rightarrow>
                 Inr \<lparr>t_images = imgs, t_data_train = data_train,
                      t_labels_train = labels_train, t_forest = forest,
                      t_world = (init_global_variable w3)
                        \<lparr>rng := g,
                         classifier_calls := classifier_calls w3 @
                           [Fit (shape1 (fst (feature_matrix img0))) 20 25
                              data_train labels_train]\<rparr>\<rparr>))))))))"

subsection \<open>The testing pass\<close>

text \<open>
  Lines 212 to 229. The evaluator's record of one call is the triple of the segmentation,
  the ground truth and the subject tag it was called with.
\<close>

fun predict_all ::
  "('raw, 'v, 'p, 's, 'm, 'g) collaborators \<Rightarrow> 'm \<Rightarrow> ('v, 'p) BrainImage list
     \<Rightarrow> 'v list \<times> 'v list \<times> ('v, 's, 'm, 'g) world
     \<Rightarrow> py_error + ('v list \<times> 'v list \<times> ('v, 's, 'm, 'g) world)" where
  "predict_all ext forest [] acc = Inr acc"
| "predict_all ext forest (img # imgs) (images_prediction, images_probabilities, w) =
     (let predictions = forest_predict ext forest (fst (feature_matrix img));
          probabilities = forest_predict_proba ext forest (fst (feature_matrix img));
          image_prediction =
            convert_labels ext (astype_uint8 predictions) (image_properties img);
          image_probabilities = convert_probabilities ext probabilities (image_properties img)
      in bind_err (dict_get (images img) GroundTruth) (\<lambda>gt.
         predict_all ext forest imgs
           (images_prediction @ [image_prediction],
            images_probabilities @ [image_probabilities],
            w\<lparr>classifier_calls := classifier_calls w @
                 [Predict forest (fst (feature_matrix img)),
                  PredictProba forest (fst (feature_matrix img))],
              evaluations := evaluations w @ [(image_prediction, gt, img_id img)]\<rparr>)))"

text \<open>
  Modelled from the spec: \<^verbatim>\<open>putil.post_process_batch\<close> is not part of the driver.
  Following the spec, each subject's post-processing is a function of that subject, its
  prediction and its probabilities, and the results come back in subject order.
\<close>

definition post_process_batch ::
  "('raw, 'v, 'p, 's, 'm, 'g) collaborators \<Rightarrow> ('v, 'p) BrainImage list \<Rightarrow> 'v list \<Rightarrow> 'v list
     \<Rightarrow> (string \<rightharpoonup> bool) \<Rightarrow> 'v list" where
  "post_process_batch ext imgs preds probs params =
     map (\<lambda>(img, pred, prob). post_process ext img pred prob params)
       (zip imgs (zip preds probs))"

text \<open>Lines 236 to 242, with the loop index \<open>i\<close> of \<^verbatim>\<open>enumerate\<close>.\<close>

fun evaluate_post_processed ::
  "string \<Rightarrow> ('v, 'p) BrainImage list \<Rightarrow> 'v list \<Rightarrow> 'v list \<Rightarrow> nat
     \<Rightarrow> ('v, 'p) BrainImage list \<Rightarrow> ('v, 's, 'm, 'g) world
     \<Rightarrow> py_error + ('v, 's, 'm, 'g) world" where
  "evaluate_post_processed result_dir images_test images_prediction images_post_processed
     i [] w = Inr w"
| "evaluate_post_processed result_dir images_test images_prediction images_post_processed
     i (img # imgs) w =
     bind_err (py_index images_post_processed i) (\<lambda>pp.
     bind_err (dict_get (images img) GroundTruth) (\<lambda>gt.
     bind_err (py_index images_prediction i) (\<lambda>pred.
     bind_err (py_index images_test i) (\<lambda>it.
     bind_err (py_index images_post_processed i) (\<lambda>pp'.
     bind_err (py_index images_test i) (\<lambda>it'.
     evaluate_post_processed result_dir images_test images_prediction images_post_processed
       (Suc i) imgs
       (w\<lparr>evaluations := evaluations w @ [(pp, gt, img_id img @ ''-PP'')],
          written := written w @
            [(pred, os_path_join result_dir (img_id it @ ''_SEG.mha''), True),
             (pp', os_path_join result_dir (img_id it' @ ''_SEG-PP.mha''), True)]\<rparr>)))))))"

subsection \<open>The driver\<close>

record ('v, 'p, 's, 'm, 'g) run =
  run_images :: "('v, 'p) BrainImage list"
  run_data_train :: ndarray2
  run_labels_train :: "int list"
  run_forest :: 'm
  run_result_dir :: string
  run_images_test :: "('v, 'p) BrainImage list"
  run_images_prediction :: "'v list"
  run_images_probabilities :: "'v list"
  run_images_post_processed :: "'v list"
  final :: "('v, 's, 'm, 'g) world"

text \<open>
  The atlas loaded by \<^verbatim>\<open>putil.load_atlas_images\<close> reaches preprocessing as the
  directory it was loaded from. The evaluator made by \<^verbatim>\<open>putil.init_evaluator\<close> starts
  without records.
\<close>

definition main ::
  "config \<Rightarrow> ('raw, 'v, 'p, 's, 'm, 'g) collaborators \<Rightarrow> ('s, 'g) environment
     \<Rightarrow> string \<Rightarrow> string \<Rightarrow> string \<Rightarrow> string \<Rightarrow> py_error + ('v, 'p, 's, 'm, 'g) run" where
  "main cfg ext env result_dir data_atlas_dir data_train_dir data_test_dir =
     bind_err
       (training cfg ext data_atlas_dir data_train_dir
          ((initial_world env)\<lparr>rng := (seed_random ext 42, seed_numpy ext 42)\<rparr>))
       (\<lambda>t.
          (case pre_process_batch ext data_atlas_dir (crawler_data ext data_test_dir)
                  ((pre_process_params cfg)(''training'' \<mapsto> False))
                  (norm_method cfg) (artifact_method cfg) False
                  ((t_world t)\<lparr>evaluations := []\<rparr>) of
             (images_test, w1) \<Rightarrow>
               bind_err (print_report ''testing'' w1) (\<lambda>w2.
               bind_err (predict_all ext (t_forest t) images_test ([], [], w2))
                 (\<lambda>(images_prediction, images_probabilities, w3).
               bind_err
                 (evaluate_post_processed (os_path_join result_dir (now env)) images_test
                    images_prediction
                    (post_process_batch ext images_test images_prediction
                       images_probabilities [''simple_post'' \<mapsto> True])
                    0 images_test w3)
                 (\<lambda>w4.
                    Inr \<lparr>run_images = t_images t, run_data_train = t_data_train t,
                         run_labels_train = t_labels_train t, run_forest = t_forest t,
                         run_result_dir = os_path_join result_dir (now env),
                         run_images_test = images_test,
                         run_images_prediction = images_prediction,
                         run_images_probabilities = images_probabilities,
                         run_images_post_processed =
                           post_process_batch ext images_test images_prediction
                             images_probabilities [''simple_post'' \<mapsto> True],
                         final = w4\<rparr>)))))"

section \<open>Z-score normalization\<close>

text \<open>
  Modelled from the spec: the normalization engine is not part of the driver. The spec's
  z-score method subtracts the masked mean and divides by the masked standard deviation, and
  fails with a DegenerateInputError when the masked standard deviation is zero. A volume
  is the list of its voxel intensities, over the real numbers, and the brain mask the list
  of the voxels' membership. Voxels outside the mask pass through unchanged. The mean and
  the (population) standard deviation of no values are taken as zero, so a mask that
  selects nothing is reported as degenerate as well.
\<close>

datatype normalization_error = DegenerateInputError

definition masked_intensities :: "real list \<Rightarrow> bool list \<Rightarrow> real list" where
  "masked_intensities volume bmask = map fst (filter snd (zip volume bmask))"

definition masked_mean :: "real list \<Rightarrow> real" where
  "masked_mean xs = (if xs = [] then 0 else sum_list xs / real (length xs))"

definition masked_std :: "real list \<Rightarrow> real" where
  "masked_std xs =
     (if xs = [] then 0
      else sqrt (sum_list (map (\<lambda>x. (x - masked_mean xs)\<^sup>2) xs) / real (length xs)))"

definition z_score :: "real list \<Rightarrow> bool list \<Rightarrow> normalization_error + real list" where
  "z_score volume bmask =
     (if masked_std (masked_intensities volume bmask) = 0 then Inl DegenerateInputError
      else Inr (map (\<lambda>(x, m).
                  if m then (x - masked_mean (masked_intensities volume bmask)) /
                            masked_std (masked_intensities volume bmask)
                  else x) (zip volume bmask)))"

section \<open>A concrete run\<close>

text \<open>
  Two training subjects and one test subject, with small numbers for volumes, properties,
  statistics, models and generator states. The generator states, the stale statistics and
  the time stamp of \<open>demo_env\<close> are what the run finds when it starts. \<open>demo_run\<close> is the
  run the driver completes on them with the committed settings.
\<close>

definition demo_subject :: "nat \<Rightarrow> (nat, nat) BrainImage" where
  "demo_subject d =
     \<lparr>img_id = (if d = 1 then ''s1'' else if d = 2 then ''s2'' else ''s3''),
      images = [T1w \<mapsto> 10 * d, T2w \<mapsto> 10 * d + 1, GroundTruth \<mapsto> 10 * d + 2,
                BrainMask \<mapsto> 10 * d + 3],
      image_properties = d,
      feature_matrix = (\<lparr>shape1 = 1, rows = [[real d], [real d + 1]]\<rparr>, [int d, 300])\<rparr>"

definition demo_ext :: "(nat, nat, nat, nat, nat, nat) collaborators" where
  "demo_ext =
     \<lparr>seed_random = (\<lambda>s. nat s), seed_numpy = (\<lambda>s. nat s + 1),
      crawler_data = (\<lambda>dir. if dir = ''train'' then [1, 2] else if dir = ''test'' then [3] else []),
      pre_process = (\<lambda>atlas d params nm am g.
         ((demo_subject d, [d], [d + 100]), (fst g + 1, snd g + 1))),
      forest_fit = (\<lambda>mf ne md data labels g. (length (rows data), (fst g + 1, snd g))),
      forest_predict = (\<lambda>m fm. map (\<lambda>_. 257) (rows fm)),
      forest_predict_proba = (\<lambda>m fm. map (\<lambda>_. [1]) (rows fm)),
      convert_labels = (\<lambda>ls p. 1000 + p),
      convert_probabilities = (\<lambda>ps p. 2000 + p),
      post_process = (\<lambda>img pred prob params. pred + 5000)\<rparr>"

definition demo_env :: "(nat, nat) environment" where
  "demo_env = \<lparr>rng0 = (7, 8), mean0 = [99], std0 = [98], now = ''2020-01-01-00-00-00''\<rparr>"

definition demo_run :: "(nat, nat, nat, nat, nat) run" where
  "demo_run =
     \<lparr>run_images = [demo_subject 1, demo_subject 2],
      run_data_train = \<lparr>shape1 = 1, rows = [[1], [2], [2], [3]]\<rparr>,
      run_labels_train = [1, 300, 2, 300],
      run_forest = 4,
      run_result_dir = ''out/2020-01-01-00-00-00'',
      run_images_test = [demo_subject 3],
      run_images_prediction = [1003],
      run_images_probabilities = [2003],
      run_images_post_processed = [6003],
      final =
        \<lparr>rng = (46, 46),
         feature_mean_intensities = [3],
         feature_std_intensities = [103],
         batch_calls =
           [\<lparr>call_params = pre_process_params source_config, call_norm_method = ''no'',
             call_artifact_method = ''none'', call_multi_process = False\<rparr>,
            \<lparr>call_params = (pre_process_params source_config)(''training'' \<mapsto> False),
             call_norm_method = ''no'', call_artifact_method = ''none'',
             call_multi_process = False\<rparr>],
         printed = [(''training'', [1, 2], [101, 102]), (''testing'', [3], [103])],
         written =
           [(10, ''./mia-result/norm images/no-norm_s1_T1w.nii.gz'', False),
            (10, ''./mia-result/norm images/no-norm_s1_T2w.nii.gz'', False),
            (20, ''./mia-result/norm images/no-norm_s2_T1w.nii.gz'', False),
            (20, ''./mia-result/norm images/no-norm_s2_T2w.nii.gz'', False),
            (1003, ''out/2020-01-01-00-00-00/s3_SEG.mha'', True),
            (6003, ''out/2020-01-01-00-00-00/s3_SEG-PP.mha'', True)],
         classifier_calls =
           [Fit 1 20 25 \<lparr>shape1 = 1, rows = [[1], [2], [2], [3]]\<rparr> [1, 300, 2, 300],
            Predict 4 \<lparr>shape1 = 1, rows = [[3], [4]]\<rparr>,
            PredictProba 4 \<lparr>shape1 = 1, rows = [[3], [4]]\<rparr>],
         evaluations = [(1003, 32, ''s3''), (6003, 32, ''s3-PP'')]\<rparr>\<rparr>"

section \<open>Properties of the steps\<close>

lemma bind_err_Inr_iff: "bind_err m f = Inr y \<longleftrightarrow> (\<exists>x. m = Inr x \<and> f x = Inr y)"
  by (cases m) (simp_all add: bind_err_def)

lemma py_index_Inr_iff: "py_index xs i = Inr x \<longleftrightarrow> i < length xs \<and> x = xs ! i"
  by (auto simp: py_index_def)

lemma dict_get_Inr_iff: "dict_get d k = Inr x \<longleftrightarrow> d k = Some x"
  by (simp add: dict_get_def split: option.splits)

lemma pre_process_all_world:
  "pre_process_all ext atlas params nm am ds w = (imgs, w') \<Longrightarrow>
     \<exists>g. w' = w\<lparr>rng := g,
       feature_mean_intensities :=
         feature_mean_intensities w @ fst (batch_statistics ext atlas params nm am ds (rng w)),
       feature_std_intensities :=
         feature_std_intensities w @ snd (batch_statistics ext atlas params nm am ds (rng w))\<rparr>"
proof (induction ds arbitrary: w imgs w')
  case Nil
  then show ?case by (intro exI [of _ "rng w"]) simp
next
  case (Cons d ds)
  obtain img ms ss g where pp: "pre_process ext atlas d params nm am (rng w) = ((img, ms, ss), g)"
    by (metis prod_cases3 surj_pair)
  let ?w1 = "w\<lparr>rng := g, feature_mean_intensities := feature_mean_intensities w @ ms,
                feature_std_intensities := feature_std_intensities w @ ss\<rparr>"
  obtain imgs1 w1' where rec: "pre_process_all ext atlas params nm am ds ?w1 = (imgs1, w1')"
    by (cases "pre_process_all ext atlas params nm am ds ?w1")
  from Cons.prems pp rec have w': "w' = w1'" by simp
  from Cons.IH [OF rec] obtain g' where
    "w1' = ?w1\<lparr>rng := g',
       feature_mean_intensities :=
         feature_mean_intensities ?w1 @ fst (batch_statistics ext atlas params nm am ds (rng ?w1)),
       feature_std_intensities :=
         feature_std_intensities ?w1 @ snd (batch_statistics ext atlas params nm am ds (rng ?w1))\<rparr>"
    by blast
  with w' pp show ?case
    by (intro exI [of _ g']) (simp add: split_beta)
qed

lemma export_images_Inr:
  "export_images nm imgs w = Inr w' \<Longrightarrow>
     w' = w\<lparr>written := written w @
            concat (map (\<lambda>img.
              [(the (images img T1w), save_to nm (img_id img) ''_T1w.nii.gz'', False),
               (the (images img T1w), save_to nm (img_id img) ''_T2w.nii.gz'', False)]) imgs)\<rparr>"
proof (induction imgs arbitrary: w)
  case Nil
  then show ?case by simp
next
  case (Cons img imgs)
  from Cons.prems obtain v where v: "images img T1w = Some v"
    and rec: "export_images nm imgs
       (w\<lparr>written := written w @
          [(v, save_to nm (img_id img) ''_T1w.nii.gz'', False),
           (v, save_to nm (img_id img) ''_T2w.nii.gz'', False)]\<rparr>) = Inr w'"
    by (auto simp: bind_err_Inr_iff dict_get_Inr_iff Let_def)
  from Cons.IH [OF rec] v show ?case by simp
qed

lemma print_report_Inr:
  "print_report pass w = Inr w' \<Longrightarrow>
     w' = w\<lparr>printed := printed w @
            [(pass, feature_mean_intensities w, feature_std_intensities w)]\<rparr>"
  by (auto simp: print_report_def split: if_splits)


lemma predict_all_Inr:
  "predict_all ext forest imgs (preds, probs, w) = Inr (preds', probs', w') \<Longrightarrow>
     preds' = preds @ map (\<lambda>img. convert_labels ext
         (astype_uint8 (forest_predict ext forest (fst (feature_matrix img))))
         (image_properties img)) imgs \<and>
     probs' = probs @ map (\<lambda>img. convert_probabilities ext
         (forest_predict_proba ext forest (fst (feature_matrix img)))
         (image_properties img)) imgs \<and>
     w' = w\<lparr>classifier_calls := classifier_calls w @
              concat (map (\<lambda>img. [Predict forest (fst (feature_matrix img)),
                                   PredictProba forest (fst (feature_matrix img))]) imgs),
            evaluations := evaluations w @
              map (\<lambda>img. (convert_labels ext
                   (astype_uint8 (forest_predict ext forest (fst (feature_matrix img))))
                   (image_properties img),
                 the (images img GroundTruth), img_id img)) imgs\<rparr>"
proof (induction imgs arbitrary: preds probs w)
  case Nil
  then show ?case by simp
next
  case (Cons img imgs)
  let ?p = "convert_labels ext
      (astype_uint8 (forest_predict ext forest (fst (feature_matrix img)))) (image_properties img)"
  let ?q = "convert_probabilities ext
      (forest_predict_proba ext forest (fst (feature_matrix img))) (image_properties img)"
  from Cons.prems obtain gt where gt: "images img GroundTruth = Some gt"
    and rec: "predict_all ext forest imgs
       (preds @ [?p], probs @ [?q],
        w\<lparr>classifier_calls := classifier_calls w @
             [Predict forest (fst (feature_matrix img)),
              PredictProba forest (fst (feature_matrix img))],
           evaluations := evaluations w @ [(?p, gt, img_id img)]\<rparr>) = Inr (preds', probs', w')"
    by (auto simp: bind_err_Inr_iff dict_get_Inr_iff Let_def)
  from Cons.IH [OF rec] gt show ?case by simp
qed

lemma predict_all_ground_truth:
  "predict_all ext forest imgs acc = Inr acc' \<Longrightarrow>
     list_all (\<lambda>img. images img GroundTruth \<noteq> None) imgs"
proof (induction imgs arbitrary: acc)
  case Nil
  then show ?case by simp
next
  case (Cons img imgs)
  obtain preds probs w where acc: "acc = (preds, probs, w)" by (cases acc)
  from Cons.prems acc obtain gt acc1 where "images img GroundTruth = Some gt"
    and "predict_all ext forest imgs acc1 = Inr acc'"
    by (auto simp: bind_err_Inr_iff dict_get_Inr_iff Let_def)
  with Cons.IH show ?case by simp
qed

lemma evaluate_post_processed_Inr:
  "evaluate_post_processed rd tests preds pps i imgs w = Inr w' \<Longrightarrow>
   imgs = drop i tests \<Longrightarrow>
     w' = w\<lparr>evaluations := evaluations w @
              map (\<lambda>j. (pps ! j, the (images (tests ! j) GroundTruth),
                         img_id (tests ! j) @ ''-PP'')) [i..<length tests],
            written := written w @
              concat (map (\<lambda>j.
                [(preds ! j, os_path_join rd (img_id (tests ! j) @ ''_SEG.mha''), True),
                 (pps ! j, os_path_join rd (img_id (tests ! j) @ ''_SEG-PP.mha''), True)])
                [i..<length tests])\<rparr>"
proof (induction imgs arbitrary: i w)
  case Nil
  then have "length tests \<le> i" by simp
  with Nil show ?case by simp
next
  case (Cons img imgs)
  from Cons.prems(2) have i: "i < length tests"
    by (metis drop_all leI list.distinct(1))
  with Cons.prems(2) have img: "img = tests ! i" and imgs: "imgs = drop (Suc i) tests"
    by (simp_all add: Cons_nth_drop_Suc [symmetric])
  from Cons.prems(1) obtain gt where gt: "images img GroundTruth = Some gt"
    and rec: "evaluate_post_processed rd tests preds pps (Suc i) imgs
       (w\<lparr>evaluations := evaluations w @ [(pps ! i, gt, img_id img @ ''-PP'')],
          written := written w @
            [(preds ! i, os_path_join rd (img_id (tests ! i) @ ''_SEG.mha''), True),
             (pps ! i, os_path_join rd (img_id (tests ! i) @ ''_SEG-PP.mha''), True)]\<rparr>) = Inr w'"
    by (auto simp: bind_err_Inr_iff dict_get_Inr_iff py_index_Inr_iff)
  have upt: "[i..<length tests] = i # [Suc i..<length tests]"
    using i by (simp add: upt_conv_Cons)
  from Cons.IH [OF rec imgs] gt img show ?case
    by (simp add: upt)
qed

lemma map_upt_zip:
  "length ys = length xs \<Longrightarrow>
     map (\<lambda>j. f (xs ! j) (ys ! j)) [0..<length xs] = map (\<lambda>(x, y). f x y) (zip xs ys)"
  by (rule nth_equalityI) simp_all


lemma pre_process_batch_world:
  "pre_process_batch ext atlas data params nm am mp w = (imgs, w') \<Longrightarrow>
     \<exists>g. w' = w\<lparr>rng := g,
       feature_mean_intensities :=
         feature_mean_intensities w @ fst (batch_statistics ext atlas params nm am data (rng w)),
       feature_std_intensities :=
         feature_std_intensities w @ snd (batch_statistics ext atlas params nm am data (rng w)),
       batch_calls := batch_calls w @
         [\<lparr>call_params = params, call_norm_method = nm, call_artifact_method = am,
           call_multi_process = mp\<rparr>]\<rparr>"
proof -
  assume "pre_process_batch ext atlas data params nm am mp w = (imgs, w')"
  then obtain g where "w' =
      (w\<lparr>batch_calls := batch_calls w @
            [\<lparr>call_params = params, call_norm_method = nm, call_artifact_method = am,
              call_multi_process = mp\<rparr>]\<rparr>)
       \<lparr>rng := g,
        feature_mean_intensities :=
          feature_mean_intensities w @ fst (batch_statistics ext atlas params nm am data (rng w)),
        feature_std_intensities :=
          feature_std_intensities w @ snd (batch_statistics ext atlas params nm am data (rng w))\<rparr>"
    unfolding pre_process_batch_def by (auto dest: pre_process_all_world)
  then show ?thesis by (intro exI [of _ g]) simp
qed

lemma training_Inr:
  assumes "training cfg ext atlas tr w = Inr t"
  obtains imgs w1 w2 w3 g where
    "pre_process_batch ext atlas (crawler_data ext tr) (pre_process_params cfg)
       (norm_method cfg) ''none'' False (init_global_variable w) = (imgs, w1)"
    and "export_images (norm_method cfg) imgs w1 = Inr w2"
    and "print_report ''training'' w2 = Inr w3"
    and "np_concatenate2 (map (\<lambda>img. fst (feature_matrix img)) imgs) = Inr (t_data_train t)"
    and "np_concatenate1 (map (\<lambda>img. snd (feature_matrix img)) imgs) = Inr (t_labels_train t)"
    and "imgs \<noteq> []" and "t_images t = imgs"
    and "forest_fit ext (shape1 (fst (feature_matrix (imgs ! 0)))) 20 25
           (t_data_train t) (t_labels_train t) (rng w3) = (t_forest t, g)"
    and "t_world t = (init_global_variable w3)
           \<lparr>rng := g,
            classifier_calls := classifier_calls w3 @
              [Fit (shape1 (fst (feature_matrix (imgs ! 0)))) 20 25
                 (t_data_train t) (t_labels_train t)]\<rparr>"
proof -
  obtain imgs w1 where b: "pre_process_batch ext atlas (crawler_data ext tr)
      (pre_process_params cfg) (norm_method cfg) ''none'' False (init_global_variable w)
      = (imgs, w1)"
    by (cases "pre_process_batch ext atlas (crawler_data ext tr)
      (pre_process_params cfg) (norm_method cfg) ''none'' False (init_global_variable w)")
  from assms b have "\<exists>w2 w3 data_train labels_train.
      export_images (norm_method cfg) imgs w1 = Inr w2 \<and>
      print_report ''training'' w2 = Inr w3 \<and>
      np_concatenate2 (map (\<lambda>img. fst (feature_matrix img)) imgs) = Inr data_train \<and>
      np_concatenate1 (map (\<lambda>img. snd (feature_matrix img)) imgs) = Inr labels_train \<and>
      imgs \<noteq> [] \<and>
      t = \<lparr>t_images = imgs, t_data_train = data_train,
           t_labels_train = labels_train,
           t_forest = fst (forest_fit ext (shape1 (fst (feature_matrix (imgs ! 0)))) 20 25
             data_train labels_train (rng w3)),
           t_world = (init_global_variable w3)
             \<lparr>rng := snd (forest_fit ext (shape1 (fst (feature_matrix (imgs ! 0)))) 20 25
                data_train labels_train (rng w3)),
              classifier_calls := classifier_calls w3 @
                [Fit (shape1 (fst (feature_matrix (imgs ! 0)))) 20 25
                   data_train labels_train]\<rparr>\<rparr>"
    unfolding training_def
    by (auto simp: bind_err_Inr_iff py_index_Inr_iff split_beta)
  then obtain w2 w3 data_train labels_train where
    e: "export_images (norm_method cfg) imgs w1 = Inr w2"
    and p: "print_report ''training'' w2 = Inr w3"
    and d: "np_concatenate2 (map (\<lambda>img. fst (feature_matrix img)) imgs) = Inr data_train"
    and l: "np_concatenate1 (map (\<lambda>img. snd (feature_matrix img)) imgs) = Inr labels_train"
    and n: "imgs \<noteq> []"
    and t: "t = \<lparr>t_images = imgs, t_data_train = data_train,
           t_labels_train = labels_train,
           t_forest = fst (forest_fit ext (shape1 (fst (feature_matrix (imgs ! 0)))) 20 25
             data_train labels_train (rng w3)),
           t_world = (init_global_variable w3)
             \<lparr>rng := snd (forest_fit ext (shape1 (fst (feature_matrix (imgs ! 0)))) 20 25
                data_train labels_train (rng w3)),
              classifier_calls := classifier_calls w3 @
                [Fit (shape1 (fst (feature_matrix (imgs ! 0)))) 20 25
                   data_train labels_train]\<rparr>\<rparr>"
    by blast
  show thesis
    by (rule that [OF b e p _ _ n, where g = "snd (forest_fit ext
          (shape1 (fst (feature_matrix (imgs ! 0)))) 20 25 data_train labels_train (rng w3))"])
       (simp_all add: t d l)
qed

lemma main_Inr:
  assumes "main cfg ext env rd atlas tr te = Inr r"
  obtains t w1 w2 w3 where
    "training cfg ext atlas tr
       ((initial_world env)\<lparr>rng := (seed_random ext 42, seed_numpy ext 42)\<rparr>) = Inr t"
    and "pre_process_batch ext atlas (crawler_data ext te)
           ((pre_process_params cfg)(''training'' \<mapsto> False))
           (norm_method cfg) (artifact_method cfg) False
           ((t_world t)\<lparr>evaluations := []\<rparr>) = (run_images_test r, w1)"
    and "print_report ''testing'' w1 = Inr w2"
    and "predict_all ext (t_forest t) (run_images_test r) ([], [], w2)
           = Inr (run_images_prediction r, run_images_probabilities r, w3)"
    and "evaluate_post_processed (os_path_join rd (now env)) (run_images_test r)
           (run_images_prediction r) (run_images_post_processed r) 0 (run_images_test r) w3
           = Inr (final r)"
    and "run_images_post_processed r =
           post_process_batch ext (run_images_test r) (run_images_prediction r)
             (run_images_probabilities r) [''simple_post'' \<mapsto> True]"
    and "run_images r = t_images t" and "run_data_train r = t_data_train t"
    and "run_labels_train r = t_labels_train t" and "run_forest r = t_forest t"
    and "run_result_dir r = os_path_join rd (now env)"
proof -
  from assms obtain t where
    t: "training cfg ext atlas tr
       ((initial_world env)\<lparr>rng := (seed_random ext 42, seed_numpy ext 42)\<rparr>) = Inr t"
    by (auto simp: main_def bind_err_Inr_iff)
  obtain images_test w1 where b: "pre_process_batch ext atlas (crawler_data ext te)
           ((pre_process_params cfg)(''training'' \<mapsto> False))
           (norm_method cfg) (artifact_method cfg) False
           ((t_world t)\<lparr>evaluations := []\<rparr>) = (images_test, w1)"
    by (cases "pre_process_batch ext atlas (crawler_data ext te)
           ((pre_process_params cfg)(''training'' \<mapsto> False))
           (norm_method cfg) (artifact_method cfg) False
           ((t_world t)\<lparr>evaluations := []\<rparr>)")
  from assms t b have "\<exists>w2 preds probs w3 w4.
      print_report ''testing'' w1 = Inr w2 \<and>
      predict_all ext (t_forest t) images_test ([], [], w2) = Inr (preds, probs, w3) \<and>
      evaluate_post_processed (os_path_join rd (now env)) images_test preds
        (post_process_batch ext images_test preds probs [''simple_post'' \<mapsto> True])
        0 images_test w3 = Inr w4 \<and>
      r = \<lparr>run_images = t_images t, run_data_train = t_data_train t,
           run_labels_train = t_labels_train t, run_forest = t_forest t,
           run_result_dir = os_path_join rd (now env),
           run_images_test = images_test,
           run_images_prediction = preds,
           run_images_probabilities = probs,
           run_images_post_processed =
             post_process_batch ext images_test preds probs [''simple_post'' \<mapsto> True],
           final = w4\<rparr>"
    unfolding main_def
    by (auto simp: bind_err_Inr_iff split: prod.splits)
  then obtain w2 preds probs w3 w4 where
    p: "print_report ''testing'' w1 = Inr w2"
    and q: "predict_all ext (t_forest t) images_test ([], [], w2) = Inr (preds, probs, w3)"
    and e: "evaluate_post_processed (os_path_join rd (now env)) images_test preds
              (post_process_batch ext images_test preds probs [''simple_post'' \<mapsto> True])
              0 images_test w3 = Inr w4"
    and r: "r = \<lparr>run_images = t_images t, run_data_train = t_data_train t,
                 run_labels_train = t_labels_train t, run_forest = t_forest t,
                 run_result_dir = os_path_join rd (now env),
                 run_images_test = images_test,
                 run_images_prediction = preds,
                 run_images_probabilities = probs,
                 run_images_post_processed =
                   post_process_batch ext images_test preds probs [''simple_post'' \<mapsto> True],
                 final = w4\<rparr>"
    by blast
  show thesis
    using e by (intro that [OF t _ p]) (simp_all add: r b q)
qed

lemma np_concatenate2_Inr:
  "np_concatenate2 as = Inr d \<Longrightarrow> rows d = concat (map rows as)"
  by (auto simp: np_concatenate2_def split: list.splits if_splits)

lemma np_concatenate1_Inr: "np_concatenate1 ls = Inr l \<Longrightarrow> l = concat ls"
  by (auto simp: np_concatenate1_def split: if_splits)

lemma zip_concat_aligned:
  "list_all (\<lambda>x. length (f x) = length (g x)) xs \<Longrightarrow>
     zip (concat (map f xs)) (concat (map g xs)) = concat (map (\<lambda>x. zip (f x) (g x)) xs) \<and>
     length (concat (map f xs)) = length (concat (map g xs))"
  by (induction xs) simp_all

lemma export_images_T2w:
  "export_images nm (map (\<lambda>img. img\<lparr>images := (images img)(T2w := t2 img)\<rparr>) imgs) w =
   export_images nm imgs w"
  by (induction imgs arbitrary: w) (simp_all add: bind_err_def dict_get_def)

lemma export_images_T1w:
  "export_images nm imgs w = Inr w' \<Longrightarrow> list_all (\<lambda>img. images img T1w \<noteq> None) imgs"
  by (induction imgs arbitrary: w) (auto simp: bind_err_Inr_iff dict_get_Inr_iff)

section \<open>Properties of a completed run\<close>

text \<open>The final state of a completed run, in closed form.\<close>

lemma main_final:
  assumes "main cfg ext env rd atlas tr te = Inr r"
  obtains g g' where
    "final r =
       \<lparr>rng = g',
        feature_mean_intensities =
          fst (batch_statistics ext atlas ((pre_process_params cfg)(''training'' \<mapsto> False))
                 (norm_method cfg) (artifact_method cfg) (crawler_data ext te) g),
        feature_std_intensities =
          snd (batch_statistics ext atlas ((pre_process_params cfg)(''training'' \<mapsto> False))
                 (norm_method cfg) (artifact_method cfg) (crawler_data ext te) g),
        batch_calls =
          [\<lparr>call_params = pre_process_params cfg, call_norm_method = norm_method cfg,
            call_artifact_method = ''none'', call_multi_process = False\<rparr>,
           \<lparr>call_params = (pre_process_params cfg)(''training'' \<mapsto> False),
            call_norm_method = norm_method cfg,
            call_artifact_method = artifact_method cfg, call_multi_process = False\<rparr>],
        printed =
          [(''training'',
            fst (batch_statistics ext atlas (pre_process_params cfg) (norm_method cfg) ''none''
                   (crawler_data ext tr) (seed_random ext 42, seed_numpy ext 42)),
            snd (batch_statistics ext atlas (pre_process_params cfg) (norm_method cfg) ''none''
                   (crawler_data ext tr) (seed_random ext 42, seed_numpy ext 42))),
           (''testing'',
            fst (batch_statistics ext atlas ((pre_process_params cfg)(''training'' \<mapsto> False))
                   (norm_method cfg) (artifact_method cfg) (crawler_data ext te) g),
            snd (batch_statistics ext atlas ((pre_process_params cfg)(''training'' \<mapsto> False))
                   (norm_method cfg) (artifact_method cfg) (crawler_data ext te) g))],
        written =
          concat (map (\<lambda>img.
            [(the (images img T1w), save_to (norm_method cfg) (img_id img) ''_T1w.nii.gz'', False),
             (the (images img T1w), save_to (norm_method cfg) (img_id img) ''_T2w.nii.gz'', False)])
            (run_images r)) @
          concat (map (\<lambda>j.
            [(run_images_prediction r ! j,
              os_path_join (run_result_dir r) (img_id (run_images_test r ! j) @ ''_SEG.mha''), True),
             (run_images_post_processed r ! j,
              os_path_join (run_result_dir r) (img_id (run_images_test r ! j) @ ''_SEG-PP.mha''),
              True)])
            [0..<length (run_images_test r)]),
        classifier_calls =
          Fit (shape1 (fst (feature_matrix (run_images r ! 0)))) 20 25
            (run_data_train r) (run_labels_train r) #
          concat (map (\<lambda>img. [Predict (run_forest r) (fst (feature_matrix img)),
                               PredictProba (run_forest r) (fst (feature_matrix img))])
            (run_images_test r)),
        evaluations =
          map (\<lambda>img. (convert_labels ext
                 (astype_uint8 (forest_predict ext (run_forest r) (fst (feature_matrix img))))
                 (image_properties img),
               the (images img GroundTruth), img_id img)) (run_images_test r) @
          map (\<lambda>j. (run_images_post_processed r ! j,
                     the (images (run_images_test r ! j) GroundTruth),
                     img_id (run_images_test r ! j) @ ''-PP''))
            [0..<length (run_images_test r)]\<rparr>"
proof -
  from assms obtain t w1 w2 w3 where
    t: "training cfg ext atlas tr
       ((initial_world env)\<lparr>rng := (seed_random ext 42, seed_numpy ext 42)\<rparr>) = Inr t"
    and b: "pre_process_batch ext atlas (crawler_data ext te)
           ((pre_process_params cfg)(''training'' \<mapsto> False))
           (norm_method cfg) (artifact_method cfg) False
           ((t_world t)\<lparr>evaluations := []\<rparr>) = (run_images_test r, w1)"
    and p: "print_report ''testing'' w1 = Inr w2"
    and q: "predict_all ext (t_forest t) (run_images_test r) ([], [], w2)
           = Inr (run_images_prediction r, run_images_probabilities r, w3)"
    and e: "evaluate_post_processed (os_path_join rd (now env)) (run_images_test r)
           (run_images_prediction r) (run_images_post_processed r) 0 (run_images_test r) w3
           = Inr (final r)"
    and r: "run_images r = t_images t" "run_data_train r = t_data_train t"
      "run_labels_train r = t_labels_train t" "run_forest r = t_forest t"
      "run_result_dir r = os_path_join rd (now env)"
    by (rule main_Inr)
  from t obtain imgs v1 v2 v3 g where
    tb: "pre_process_batch ext atlas (crawler_data ext tr) (pre_process_params cfg)
       (norm_method cfg) ''none'' False
       (init_global_variable
          ((initial_world env)\<lparr>rng := (seed_random ext 42, seed_numpy ext 42)\<rparr>)) = (imgs, v1)"
    and te: "export_images (norm_method cfg) imgs v1 = Inr v2"
    and tp: "print_report ''training'' v2 = Inr v3"
    and ti: "t_images t = imgs"
    and tw: "t_world t = (init_global_variable v3)
           \<lparr>rng := g,
            classifier_calls := classifier_calls v3 @
              [Fit (shape1 (fst (feature_matrix (imgs ! 0)))) 20 25
                 (t_data_train t) (t_labels_train t)]\<rparr>"
    by (rule training_Inr)
  from pre_process_batch_world [OF tb] obtain g1 where v1: "v1 =
      \<lparr>rng = g1,
       feature_mean_intensities =
         fst (batch_statistics ext atlas (pre_process_params cfg) (norm_method cfg) ''none''
                (crawler_data ext tr) (seed_random ext 42, seed_numpy ext 42)),
       feature_std_intensities =
         snd (batch_statistics ext atlas (pre_process_params cfg) (norm_method cfg) ''none''
                (crawler_data ext tr) (seed_random ext 42, seed_numpy ext 42)),
       batch_calls =
         [\<lparr>call_params = pre_process_params cfg, call_norm_method = norm_method cfg,
           call_artifact_method = ''none'', call_multi_process = False\<rparr>],
       printed = [], written = [], classifier_calls = [], evaluations = []\<rparr>"
    by (auto simp: init_global_variable_def initial_world_def)
  note v2 = export_images_Inr [OF te]
  note v3 = print_report_Inr [OF tp]
  from pre_process_batch_world [OF b] obtain g2 where w1: "w1 =
      (t_world t)\<lparr>evaluations := [], rng := g2,
       feature_mean_intensities :=
         fst (batch_statistics ext atlas ((pre_process_params cfg)(''training'' \<mapsto> False))
                (norm_method cfg) (artifact_method cfg) (crawler_data ext te) g),
       feature_std_intensities :=
         snd (batch_statistics ext atlas ((pre_process_params cfg)(''training'' \<mapsto> False))
                (norm_method cfg) (artifact_method cfg) (crawler_data ext te) g),
       batch_calls := batch_calls (t_world t) @
         [\<lparr>call_params = (pre_process_params cfg)(''training'' \<mapsto> False),
           call_norm_method = norm_method cfg,
           call_artifact_method = artifact_method cfg, call_multi_process = False\<rparr>]\<rparr>"
    by (auto simp: tw init_global_variable_def)
  note w2 = print_report_Inr [OF p]
  from predict_all_Inr [OF q] have w3: "w3 =
      w2\<lparr>classifier_calls := classifier_calls w2 @
            concat (map (\<lambda>img. [Predict (t_forest t) (fst (feature_matrix img)),
                                 PredictProba (t_forest t) (fst (feature_matrix img))])
              (run_images_test r)),
          evaluations := evaluations w2 @
            map (\<lambda>img. (convert_labels ext
                   (astype_uint8 (forest_predict ext (t_forest t) (fst (feature_matrix img))))
                   (image_properties img),
                 the (images img GroundTruth), img_id img)) (run_images_test r)\<rparr>"
    by simp
  note w4 = evaluate_post_processed_Inr [OF e, simplified]
  show thesis
    by (rule that [of g2 g])
       (simp add: w4 w3 w2 w1 tw v3 v2 v1 r ti init_global_variable_def)
qed

lemma main_training_data:
  assumes "main cfg ext env rd atlas tr te = Inr r"
  shows "rows (run_data_train r) = concat (map (\<lambda>img. rows (fst (feature_matrix img))) (run_images r))"
    and "run_labels_train r = concat (map (\<lambda>img. snd (feature_matrix img)) (run_images r))"
    and "\<exists>g. run_forest r =
           fst (forest_fit ext (shape1 (fst (feature_matrix (run_images r ! 0)))) 20 25
                  (run_data_train r) (run_labels_train r) g)"
proof -
  from assms obtain t w1 w2 w3 where
    t: "training cfg ext atlas tr
       ((initial_world env)\<lparr>rng := (seed_random ext 42, seed_numpy ext 42)\<rparr>) = Inr t"
    and b: "pre_process_batch ext atlas (crawler_data ext te)
           ((pre_process_params cfg)(''training'' \<mapsto> False))
           (norm_method cfg) (artifact_method cfg) False
           ((t_world t)\<lparr>evaluations := []\<rparr>) = (run_images_test r, w1)"
    and p: "print_report ''testing'' w1 = Inr w2"
    and q: "predict_all ext (t_forest t) (run_images_test r) ([], [], w2)
           = Inr (run_images_prediction r, run_images_probabilities r, w3)"
    and e: "evaluate_post_processed (os_path_join rd (now env)) (run_images_test r)
           (run_images_prediction r) (run_images_post_processed r) 0 (run_images_test r) w3
           = Inr (final r)"
    and pp: "run_images_post_processed r =
           post_process_batch ext (run_images_test r) (run_images_prediction r)
             (run_images_probabilities r) [''simple_post'' \<mapsto> True]"
    and r: "run_images r = t_images t" "run_data_train r = t_data_train t"
      "run_labels_train r = t_labels_train t" "run_forest r = t_forest t"
      "run_result_dir r = os_path_join rd (now env)"
    by (rule main_Inr)
  from t obtain imgs v1 v2 v3 g where
    tb: "pre_process_batch ext atlas (crawler_data ext tr) (pre_process_params cfg)
       (norm_method cfg) ''none'' False
       (init_global_variable
          ((initial_world env)\<lparr>rng := (seed_random ext 42, seed_numpy ext 42)\<rparr>)) = (imgs, v1)"
    and te: "export_images (norm_method cfg) imgs v1 = Inr v2"
    and tp: "print_report ''training'' v2 = Inr v3"
    and d: "np_concatenate2 (map (\<lambda>img. fst (feature_matrix img)) imgs) = Inr (t_data_train t)"
    and l: "np_concatenate1 (map (\<lambda>img. snd (feature_matrix img)) imgs) = Inr (t_labels_train t)"
    and n: "imgs \<noteq> []"
    and i: "t_images t = imgs"
    and f: "forest_fit ext (shape1 (fst (feature_matrix (imgs ! 0)))) 20 25
           (t_data_train t) (t_labels_train t) (rng v3) = (t_forest t, g)"
    and tw: "t_world t = (init_global_variable v3)
           \<lparr>rng := g,
            classifier_calls := classifier_calls v3 @
              [Fit (shape1 (fst (feature_matrix (imgs ! 0)))) 20 25
                 (t_data_train t) (t_labels_train t)]\<rparr>"
    by (rule training_Inr)
  from np_concatenate2_Inr [OF d] r i
  show "rows (run_data_train r) = concat (map (\<lambda>img. rows (fst (feature_matrix img))) (run_images r))"
    by (simp add: comp_def)
  from np_concatenate1_Inr [OF l] r i
  show "run_labels_train r = concat (map (\<lambda>img. snd (feature_matrix img)) (run_images r))"
    by simp
  from f r i have "run_forest r =
      fst (forest_fit ext (shape1 (fst (feature_matrix (run_images r ! 0)))) 20 25
             (run_data_train r) (run_labels_train r) (rng v3))"
    by simp
  then show "\<exists>g. run_forest r =
           fst (forest_fit ext (shape1 (fst (feature_matrix (run_images r ! 0)))) 20 25
                  (run_data_train r) (run_labels_train r) g)" ..
qed

lemma main_predictions:
  assumes "main cfg ext env rd atlas tr te = Inr r"
  shows "run_images_prediction r =
           map (\<lambda>img. convert_labels ext
                 (astype_uint8 (forest_predict ext (run_forest r) (fst (feature_matrix img))))
                 (image_properties img)) (run_images_test r)"
    and "run_images_probabilities r =
           map (\<lambda>img. convert_probabilities ext
                 (forest_predict_proba ext (run_forest r) (fst (feature_matrix img)))
                 (image_properties img)) (run_images_test r)"
    and "run_images_post_processed r =
           map (\<lambda>(img, pred, prob). post_process ext img pred prob [''simple_post'' \<mapsto> True])
             (zip (run_images_test r)
                (zip (run_images_prediction r) (run_images_probabilities r)))"
    and "list_all (\<lambda>img. images img GroundTruth \<noteq> None) (run_images_test r)"
proof -
  from assms obtain t w1 w2 w3 where
    t: "training cfg ext atlas tr
       ((initial_world env)\<lparr>rng := (seed_random ext 42, seed_numpy ext 42)\<rparr>) = Inr t"
    and b: "pre_process_batch ext atlas (crawler_data ext te)
           ((pre_process_params cfg)(''training'' \<mapsto> False))
           (norm_method cfg) (artifact_method cfg) False
           ((t_world t)\<lparr>evaluations := []\<rparr>) = (run_images_test r, w1)"
    and p: "print_report ''testing'' w1 = Inr w2"
    and q: "predict_all ext (t_forest t) (run_images_test r) ([], [], w2)
           = Inr (run_images_prediction r, run_images_probabilities r, w3)"
    and e: "evaluate_post_processed (os_path_join rd (now env)) (run_images_test r)
           (run_images_prediction r) (run_images_post_processed r) 0 (run_images_test r) w3
           = Inr (final r)"
    and pp: "run_images_post_processed r =
           post_process_batch ext (run_images_test r) (run_images_prediction r)
             (run_images_probabilities r) [''simple_post'' \<mapsto> True]"
    and r: "run_images r = t_images t" "run_data_train r = t_data_train t"
      "run_labels_train r = t_labels_train t" "run_forest r = t_forest t"
      "run_result_dir r = os_path_join rd (now env)"
    by (rule main_Inr)
  from predict_all_Inr [OF q] r
  show "run_images_prediction r =
           map (\<lambda>img. convert_labels ext
                 (astype_uint8 (forest_predict ext (run_forest r) (fst (feature_matrix img))))
                 (image_properties img)) (run_images_test r)"
    and "run_images_probabilities r =
           map (\<lambda>img. convert_probabilities ext
                 (forest_predict_proba ext (run_forest r) (fst (feature_matrix img)))
                 (image_properties img)) (run_images_test r)"
    by simp_all
  from pp show "run_images_post_processed r =
           map (\<lambda>(img, pred, prob). post_process ext img pred prob [''simple_post'' \<mapsto> True])
             (zip (run_images_test r)
                (zip (run_images_prediction r) (run_images_probabilities r)))"
    by (simp add: post_process_batch_def)
  from predict_all_ground_truth [OF q]
  show "list_all (\<lambda>img. images img GroundTruth \<noteq> None) (run_images_test r)" .
qed

lemma evaluate_post_processed_dir:
  "w\<lparr>written := []\<rparr> = w'\<lparr>written := []\<rparr> \<Longrightarrow>
     map_sum id (\<lambda>u. u\<lparr>written := []\<rparr>)
       (evaluate_post_processed rd tests preds pps i imgs w) =
     map_sum id (\<lambda>u. u\<lparr>written := []\<rparr>)
       (evaluate_post_processed rd' tests preds pps i imgs w')"
proof (induction imgs arbitrary: i w w')
  case Nil
  then show ?case by simp
next
  case (Cons img imgs)
  from Cons.prems have "evaluations (w\<lparr>written := []\<rparr>) = evaluations (w'\<lparr>written := []\<rparr>)"
    by simp
  then have ev: "evaluations w = evaluations w'" by simp
  have step: "(w\<lparr>evaluations := E, written := W\<rparr>)\<lparr>written := []\<rparr> =
      (w'\<lparr>evaluations := E, written := W'\<rparr>)\<lparr>written := []\<rparr>" for E W W'
    using Cons.prems by (cases w, cases w') simp
  show ?case
  proof (cases "i < length pps \<and> i < length preds \<and> i < length tests")
    case False
    then show ?thesis
      by (auto simp: bind_err_def py_index_def dict_get_def split: option.splits)
  next
    case True
    show ?thesis
    proof (cases "images img GroundTruth")
      case None
      with True show ?thesis by (simp add: bind_err_def py_index_def dict_get_def)
    next
      case (Some gt)
      have l: "evaluate_post_processed rd tests preds pps i (img # imgs) w =
          evaluate_post_processed rd tests preds pps (Suc i) imgs
            (w\<lparr>evaluations := evaluations w' @ [(pps ! i, gt, img_id img @ ''-PP'')],
               written := written w @
                 [(preds ! i, os_path_join rd (img_id (tests ! i) @ ''_SEG.mha''), True),
                  (pps ! i, os_path_join rd (img_id (tests ! i) @ ''_SEG-PP.mha''), True)]\<rparr>)"
        using True Some by (simp add: bind_err_def py_index_def dict_get_def ev)
      have r: "evaluate_post_processed rd' tests preds pps i (img # imgs) w' =
          evaluate_post_processed rd' tests preds pps (Suc i) imgs
            (w'\<lparr>evaluations := evaluations w' @ [(pps ! i, gt, img_id img @ ''-PP'')],
                written := written w' @
                  [(preds ! i, os_path_join rd' (img_id (tests ! i) @ ''_SEG.mha''), True),
                   (pps ! i, os_path_join rd' (img_id (tests ! i) @ ''_SEG-PP.mha''), True)]\<rparr>)"
        using True Some by (simp add: bind_err_def py_index_def dict_get_def)
      show ?thesis unfolding l r by (rule Cons.IH) (rule step)
    qed
  qed
qed

lemma training_seeded:
  "training cfg ext atlas tr ((initial_world env)\<lparr>rng := s\<rparr>) =
   training cfg ext atlas tr ((initial_world env')\<lparr>rng := s\<rparr>)"
  by (simp add: training_def init_global_variable_def initial_world_def)

text \<open>The driver completes on the concrete inputs, with the run given above.\<close>

lemmas demo_defs =
  main_def training_def pre_process_batch_def init_global_variable_def initial_world_def
  demo_ext_def demo_env_def demo_subject_def plots_def print_report_def
  np_concatenate2_def np_concatenate1_def py_index_def dict_get_def bind_err_def
  post_process_batch_def norm_method_def artifact_method_def astype_uint8_def
  save_to_def os_path_join_def

lemma demo_main:
  "main source_config demo_ext demo_env ''out'' ''atlas'' ''train'' ''test'' = Inr demo_run"
  by (simp add: demo_defs demo_run_def source_config_def)

lemma constant_list:
  "\<forall>x\<in>set xs. \<forall>y\<in>set xs. x = y \<Longrightarrow> xs = replicate (length xs) (hd xs)"
  by (cases xs) (auto simp: replicate_length_same [symmetric] intro!: replicate_eqI)

lemma masked_mean_replicate: "0 < n \<Longrightarrow> masked_mean (replicate n c) = c"
  by (simp add: masked_mean_def sum_list_replicate)

lemma masked_std_replicate: "masked_std (replicate n c) = 0"
proof (cases "n = 0")
  case True
  then show ?thesis by (simp add: masked_std_def)
next
  case False
  then have "sum_list (map (\<lambda>x. (x - masked_mean (replicate n c))\<^sup>2) (replicate n c)) = 0"
    by (simp add: masked_mean_replicate sum_list_replicate)
  then show ?thesis by (simp add: masked_std_def)
qed

lemma z_score_varying: "z_score [1, 3] [True, True] = Inr [- 1, 1]"
  by (simp add: z_score_def masked_intensities_def masked_std_def masked_mean_def)

section \<open>The claims\<close>

text \<open>
  C1. The statistics lists are reset before the training batch and again after the
  training report, so each report averages the statistics of its own pass only: the
  training report holds exactly what the training subjects contributed, whatever the lists
  held before the run, and the testing report exactly what the test subjects contributed.
\<close>

theorem reports_never_mix_passes:
  assumes "main cfg ext env result_dir data_atlas_dir data_train_dir data_test_dir = Inr r"
  shows "\<exists>g. printed (final r) =
    [(''training'',
      fst (batch_statistics ext data_atlas_dir (pre_process_params cfg) (norm_method cfg)
             ''none'' (crawler_data ext data_train_dir) (seed_random ext 42, seed_numpy ext 42)),
      snd (batch_statistics ext data_atlas_dir (pre_process_params cfg) (norm_method cfg)
             ''none'' (crawler_data ext data_train_dir) (seed_random ext 42, seed_numpy ext 42))),
     (''testing'',
      fst (batch_statistics ext data_atlas_dir ((pre_process_params cfg)(''training'' \<mapsto> False))
             (norm_method cfg) (artifact_method cfg) (crawler_data ext data_test_dir) g),
      snd (batch_statistics ext data_atlas_dir ((pre_process_params cfg)(''training'' \<mapsto> False))
             (norm_method cfg) (artifact_method cfg) (crawler_data ext data_test_dir) g))]"
  by (rule main_final [OF assms]) (rule exI, simp)

theorem reports_never_mix_passes_witness:
  "main source_config demo_ext demo_env ''out'' ''atlas'' ''train'' ''test'' = Inr demo_run \<and>
   mean0 demo_env = [99] \<and> std0 demo_env = [98] \<and>
   printed (final demo_run) = [(''training'', [1, 2], [101, 102]), (''testing'', [3], [103])]"
  using reports_never_mix_passes [OF demo_main] demo_main
  by (simp add: demo_ext_def demo_env_def source_config_def norm_method_def artifact_method_def)

text \<open>
  C2. The classifier is called with one \<^verbatim>\<open>fit\<close>, on the rows and labels concatenated
  over the training subjects in order, followed for each test subject by \<^verbatim>\<open>predict\<close>
  and \<^verbatim>\<open>predict_proba\<close> on the model that this fit returned.
\<close>

theorem forest_fit_once:
  assumes "main cfg ext env result_dir data_atlas_dir data_train_dir data_test_dir = Inr r"
  shows "classifier_calls (final r) =
           Fit (shape1 (fst (feature_matrix (run_images r ! 0)))) 20 25
             (run_data_train r) (run_labels_train r) #
           concat (map (\<lambda>img. [Predict (run_forest r) (fst (feature_matrix img)),
                                PredictProba (run_forest r) (fst (feature_matrix img))])
             (run_images_test r)) \<and>
         rows (run_data_train r) =
           concat (map (\<lambda>img. rows (fst (feature_matrix img))) (run_images r)) \<and>
         run_labels_train r = concat (map (\<lambda>img. snd (feature_matrix img)) (run_images r)) \<and>
         (\<exists>g. run_forest r =
            fst (forest_fit ext (shape1 (fst (feature_matrix (run_images r ! 0)))) 20 25
                   (run_data_train r) (run_labels_train r) g))"
proof -
  have "classifier_calls (final r) =
           Fit (shape1 (fst (feature_matrix (run_images r ! 0)))) 20 25
             (run_data_train r) (run_labels_train r) #
           concat (map (\<lambda>img. [Predict (run_forest r) (fst (feature_matrix img)),
                                PredictProba (run_forest r) (fst (feature_matrix img))])
             (run_images_test r))"
    by (rule main_final [OF assms]) simp
  with main_training_data [OF assms] show ?thesis by blast
qed

theorem forest_fit_once_witness:
  "main source_config demo_ext demo_env ''out'' ''atlas'' ''train'' ''test'' = Inr demo_run \<and>
   classifier_calls (final demo_run) =
     [Fit 1 20 25 \<lparr>shape1 = 1, rows = [[1], [2], [2], [3]]\<rparr> [1, 300, 2, 300],
      Predict 4 \<lparr>shape1 = 1, rows = [[3], [4]]\<rparr>,
      PredictProba 4 \<lparr>shape1 = 1, rows = [[3], [4]]\<rparr>] \<and>
   run_forest demo_run = 4"
  using forest_fit_once [OF demo_main] demo_main
  by (simp add: demo_run_def demo_subject_def)



text \<open>
  C4. When every training subject's feature rows and labels have the same length, the
  aggregated matrix and label vector pair up row by row exactly as the subjects' own rows
  and labels do, subject after subject.
\<close>

theorem training_rows_and_labels_aligned:
  assumes "main cfg ext env result_dir data_atlas_dir data_train_dir data_test_dir = Inr r"
    and "list_all (\<lambda>img. length (rows (fst (feature_matrix img))) =
                          length (snd (feature_matrix img))) (run_images r)"
  shows "zip (rows (run_data_train r)) (run_labels_train r) =
           concat (map (\<lambda>img. zip (rows (fst (feature_matrix img))) (snd (feature_matrix img)))
             (run_images r)) \<and>
         length (rows (run_data_train r)) = length (run_labels_train r)"
  using zip_concat_aligned [OF assms(2)] main_training_data(1,2) [OF assms(1)]
  by simp

theorem training_rows_and_labels_aligned_witness:
  "main source_config demo_ext demo_env ''out'' ''atlas'' ''train'' ''test'' = Inr demo_run \<and>
   list_all (\<lambda>img. length (rows (fst (feature_matrix img))) =
                    length (snd (feature_matrix img))) (run_images demo_run) \<and>
   zip (rows (run_data_train demo_run)) (run_labels_train demo_run) =
     [([1], 1), ([2], 300), ([2], 2), ([3], 300)]"
proof -
  have h: "list_all (\<lambda>img. length (rows (fst (feature_matrix img))) =
                    length (snd (feature_matrix img))) (run_images demo_run)"
    by (simp add: demo_run_def demo_subject_def)
  from training_rows_and_labels_aligned [OF demo_main h] h demo_main
  show ?thesis by (simp add: demo_run_def demo_subject_def)
qed

text \<open>
  C5. The driver seeds both generators with 42 before anything else, so a run does not
  depend on the state it finds them in, nor on stale statistics: two runs on the same
  inputs agree on the outcome, and when they complete, on the trained model, on every
  prediction and probability volume, on the classifier calls and on the evaluator's
  records. They differ at most in the time-stamped result directory and the paths written
  under it.
\<close>

theorem seeded_run_reproducible:
  "map_sum id (\<lambda>r. r\<lparr>run_result_dir := [], final := (final r)\<lparr>written := []\<rparr>\<rparr>)
     (main cfg ext env result_dir data_atlas_dir data_train_dir data_test_dir) =
   map_sum id (\<lambda>r. r\<lparr>run_result_dir := [], final := (final r)\<lparr>written := []\<rparr>\<rparr>)
     (main cfg ext env' result_dir data_atlas_dir data_train_dir data_test_dir)"
proof (cases "training cfg ext data_atlas_dir data_train_dir
    ((initial_world env)\<lparr>rng := (seed_random ext 42, seed_numpy ext 42)\<rparr>)")
  case (Inl e)
  with training_seeded [where cfg = cfg and ext = ext and atlas = data_atlas_dir and tr = data_train_dir and env = env and env' = env' and s = "(seed_random ext 42, seed_numpy ext 42)"]
  have "training cfg ext data_atlas_dir data_train_dir
    ((initial_world env')\<lparr>rng := (seed_random ext 42, seed_numpy ext 42)\<rparr>) = Inl e"
    by simp
  with Inl show ?thesis by (simp add: main_def bind_err_def)
next
  case (Inr t)
  with training_seeded [where cfg = cfg and ext = ext and atlas = data_atlas_dir and tr = data_train_dir and env = env and env' = env' and s = "(seed_random ext 42, seed_numpy ext 42)"]
  have t': "training cfg ext data_atlas_dir data_train_dir
    ((initial_world env')\<lparr>rng := (seed_random ext 42, seed_numpy ext 42)\<rparr>) = Inr t"
    by simp
  obtain images_test w1 where b: "pre_process_batch ext data_atlas_dir
      (crawler_data ext data_test_dir) ((pre_process_params cfg)(''training'' \<mapsto> False))
      (norm_method cfg) (artifact_method cfg) False ((t_world t)\<lparr>evaluations := []\<rparr>)
      = (images_test, w1)"
    by (cases "pre_process_batch ext data_atlas_dir
      (crawler_data ext data_test_dir) ((pre_process_params cfg)(''training'' \<mapsto> False))
      (norm_method cfg) (artifact_method cfg) False ((t_world t)\<lparr>evaluations := []\<rparr>)")
  show ?thesis
  proof (cases "print_report ''testing'' w1")
    case (Inl e)
    with Inr t' b show ?thesis by (simp add: main_def bind_err_def)
  next
    case p: (Inr w2)
    show ?thesis
    proof (cases "predict_all ext (t_forest t) images_test ([], [], w2)")
      case (Inl e)
      with Inr t' b p show ?thesis by (simp add: main_def bind_err_def)
    next
      case q: (Inr acc)
      obtain preds probs w3 where acc: "acc = (preds, probs, w3)" by (cases acc)
      let ?pps = "post_process_batch ext images_test preds probs [''simple_post'' \<mapsto> True]"
      have d: "map_sum id (\<lambda>u. u\<lparr>written := []\<rparr>)
          (evaluate_post_processed (os_path_join result_dir (now env)) images_test preds ?pps
             0 images_test w3) =
        map_sum id (\<lambda>u. u\<lparr>written := []\<rparr>)
          (evaluate_post_processed (os_path_join result_dir (now env')) images_test preds ?pps
             0 images_test w3)"
        by (rule evaluate_post_processed_dir) simp
      show ?thesis
      proof (cases "evaluate_post_processed (os_path_join result_dir (now env)) images_test
          preds ?pps 0 images_test w3")
        case (Inl e)
        with d have "evaluate_post_processed (os_path_join result_dir (now env')) images_test
          preds ?pps 0 images_test w3 = Inl e"
          by (cases "evaluate_post_processed (os_path_join result_dir (now env')) images_test
          preds ?pps 0 images_test w3") simp_all
        with Inl Inr t' b p q acc show ?thesis by (simp add: main_def bind_err_def)
      next
        case e: (Inr w4)
        with d obtain w4' where e': "evaluate_post_processed (os_path_join result_dir (now env'))
          images_test preds ?pps 0 images_test w3 = Inr w4'"
          and w4: "w4\<lparr>written := []\<rparr> = w4'\<lparr>written := []\<rparr>"
          by (cases "evaluate_post_processed (os_path_join result_dir (now env')) images_test
          preds ?pps 0 images_test w3") simp_all
        with e Inr t' b p q acc show ?thesis by (simp add: main_def bind_err_def)
      qed
    qed
  qed
qed

theorem seeded_run_reproducible_witness:
  "map_sum id (\<lambda>r. r\<lparr>run_result_dir := [], final := (final r)\<lparr>written := []\<rparr>\<rparr>)
     (main source_config demo_ext demo_env ''out'' ''atlas'' ''train'' ''test'') =
   map_sum id (\<lambda>r. r\<lparr>run_result_dir := [], final := (final r)\<lparr>written := []\<rparr>\<rparr>)
     (main source_config demo_ext
        \<lparr>rng0 = (0, 1), mean0 = [], std0 = [5], now = ''2021-06-30-12-00-00''\<rparr>
        ''out'' ''atlas'' ''train'' ''test'') \<and>
   map_sum id run_images_prediction
     (main source_config demo_ext
        \<lparr>rng0 = (0, 1), mean0 = [], std0 = [5], now = ''2021-06-30-12-00-00''\<rparr>
        ''out'' ''atlas'' ''train'' ''test'') = Inr [1003]"
proof -
  let ?e = "\<lparr>rng0 = (0, 1), mean0 = [], std0 = [5], now = ''2021-06-30-12-00-00''\<rparr>
    :: (nat, nat) environment"
  note s = seeded_run_reproducible [of source_config demo_ext demo_env
      "''out''" "''atlas''" "''train''" "''test''" ?e]
  from s obtain r where r: "main source_config demo_ext ?e ''out'' ''atlas'' ''train'' ''test''
      = Inr r"
    and eq: "demo_run\<lparr>run_result_dir := [], final := (final demo_run)\<lparr>written := []\<rparr>\<rparr> =
      r\<lparr>run_result_dir := [], final := (final r)\<lparr>written := []\<rparr>\<rparr>"
    by (cases "main source_config demo_ext ?e ''out'' ''atlas'' ''train'' ''test''")
       (simp_all add: demo_main)
  from eq have "run_images_prediction
      (demo_run\<lparr>run_result_dir := [], final := (final demo_run)\<lparr>written := []\<rparr>\<rparr>) =
    run_images_prediction (r\<lparr>run_result_dir := [], final := (final r)\<lparr>written := []\<rparr>\<rparr>)"
    by simp
  then have "run_images_prediction r = [1003]" by (simp add: demo_run_def)
  with s r show ?thesis by simp
qed

text \<open>
  C6. The evaluator's records of a completed run are, for every test subject in order, the
  raw prediction tagged with the subject's identifier, followed, again for every test
  subject in order, by the post-processed prediction tagged with the identifier suffixed
  ``-PP''; the two tags of a subject differ.
\<close>

theorem every_test_subject_evaluated_twice:
  assumes "main cfg ext env result_dir data_atlas_dir data_train_dir data_test_dir = Inr r"
  shows "evaluations (final r) =
           map (\<lambda>(img, pred). (pred, the (images img GroundTruth), img_id img))
             (zip (run_images_test r) (run_images_prediction r)) @
           map (\<lambda>(img, pp). (pp, the (images img GroundTruth), img_id img @ ''-PP''))
             (zip (run_images_test r) (run_images_post_processed r)) \<and>
         length (run_images_prediction r) = length (run_images_test r) \<and>
         length (run_images_post_processed r) = length (run_images_test r) \<and>
         run_images_post_processed r =
           map (\<lambda>(img, pred, prob). post_process ext img pred prob [''simple_post'' \<mapsto> True])
             (zip (run_images_test r)
                (zip (run_images_prediction r) (run_images_probabilities r))) \<and>
         list_all (\<lambda>img. images img GroundTruth \<noteq> None \<and> img_id img @ ''-PP'' \<noteq> img_id img)
           (run_images_test r)"
proof -
  note p = main_predictions [OF assms]
  have n1: "length (run_images_prediction r) = length (run_images_test r)"
    by (subst p(1)) simp
  have n2: "length (run_images_probabilities r) = length (run_images_test r)"
    by (subst p(2)) simp
  have n3: "length (run_images_post_processed r) = length (run_images_test r)"
    by (subst p(3)) (simp add: n1 n2)
  have raw: "map (\<lambda>img. (convert_labels ext
                 (astype_uint8 (forest_predict ext (run_forest r) (fst (feature_matrix img))))
                 (image_properties img),
               the (images img GroundTruth), img_id img)) (run_images_test r) =
      map (\<lambda>(img, pred). (pred, the (images img GroundTruth), img_id img))
        (zip (run_images_test r) (run_images_prediction r))"
    by (subst p(1)) (simp add: zip_map2 comp_def zip_same_conv_map)
  have post: "map (\<lambda>j. (run_images_post_processed r ! j,
                     the (images (run_images_test r ! j) GroundTruth),
                     img_id (run_images_test r ! j) @ ''-PP''))
            [0..<length (run_images_test r)] =
      map (\<lambda>(img, pp). (pp, the (images img GroundTruth), img_id img @ ''-PP''))
        (zip (run_images_test r) (run_images_post_processed r))"
    using map_upt_zip [OF n3,
      of "\<lambda>img pp. (pp, the (images img GroundTruth), img_id img @ ''-PP'')"]
    by simp
  have ev: "evaluations (final r) =
      map (\<lambda>img. (convert_labels ext
                 (astype_uint8 (forest_predict ext (run_forest r) (fst (feature_matrix img))))
                 (image_properties img),
               the (images img GroundTruth), img_id img)) (run_images_test r) @
      map (\<lambda>j. (run_images_post_processed r ! j,
                     the (images (run_images_test r ! j) GroundTruth),
                     img_id (run_images_test r ! j) @ ''-PP''))
            [0..<length (run_images_test r)]"
    by (rule main_final [OF assms]) simp
  have gt: "list_all (\<lambda>img. images img GroundTruth \<noteq> None \<and> img_id img @ ''-PP'' \<noteq> img_id img)
           (run_images_test r)"
    using p(4) by (simp add: list_all_iff)
  from ev raw post n1 n3 p(3) gt show ?thesis by simp
qed

theorem every_test_subject_evaluated_twice_witness:
  "main source_config demo_ext demo_env ''out'' ''atlas'' ''train'' ''test'' = Inr demo_run \<and>
   run_images_test demo_run = [demo_subject 3] \<and> img_id (demo_subject 3) = ''s3'' \<and>
   evaluations (final demo_run) = [(1003, 32, ''s3''), (6003, 32, ''s3-PP'')]"
  using every_test_subject_evaluated_twice [OF demo_main] demo_main
  by (simp add: demo_run_def demo_subject_def)

text \<open>
  C7. For every test subject the label volume and the probability volume are built by the
  conversion from that subject's flat predictions and that subject's own image properties.
\<close>

theorem volumes_rebuilt_with_own_properties:
  assumes "main cfg ext env result_dir data_atlas_dir data_train_dir data_test_dir = Inr r"
  shows "run_images_prediction r =
           map (\<lambda>img. convert_labels ext
                 (astype_uint8 (forest_predict ext (run_forest r) (fst (feature_matrix img))))
                 (image_properties img)) (run_images_test r) \<and>
         run_images_probabilities r =
           map (\<lambda>img. convert_probabilities ext
                 (forest_predict_proba ext (run_forest r) (fst (feature_matrix img)))
                 (image_properties img)) (run_images_test r)"
  using main_predictions(1,2) [OF assms] by blast

theorem volumes_rebuilt_with_own_properties_witness:
  "main source_config demo_ext demo_env ''out'' ''atlas'' ''train'' ''test'' = Inr demo_run \<and>
   map image_properties (run_images_test demo_run) = [3] \<and>
   run_images_prediction demo_run = [convert_labels demo_ext [1, 1] 3] \<and>
   run_images_probabilities demo_run = [convert_probabilities demo_ext [[1], [1]] 3]"
  using volumes_rebuilt_with_own_properties [OF demo_main] demo_main
  by (simp add: demo_run_def demo_subject_def demo_ext_def astype_uint8_def)

text \<open>
  C8. When all intensities inside the mask are equal, z-score normalization fails with
  DegenerateInputError.
\<close>

theorem z_score_constant_fails:
  assumes "\<forall>x\<in>set (masked_intensities volume bmask).
             \<forall>y\<in>set (masked_intensities volume bmask). x = y"
  shows "z_score volume bmask = Inl DegenerateInputError"
proof -
  from constant_list [OF assms] obtain n c where "masked_intensities volume bmask = replicate n c"
    by blast
  then show ?thesis by (simp add: z_score_def masked_std_replicate)
qed

theorem z_score_constant_fails_witness:
  "masked_intensities [5, 7, 5, 5] [True, False, True, True] = [5, 5, 5] \<and>
   z_score [5, 7, 5, 5] [True, False, True, True] = Inl DegenerateInputError"
proof -
  have m: "masked_intensities [5, 7, 5, 5] [True, False, True, True] = [5, 5, 5]"
    by (simp add: masked_intensities_def)
  then have "\<forall>x\<in>set (masked_intensities [5, 7, 5, 5] [True, False, True, True]).
      \<forall>y\<in>set (masked_intensities [5, 7, 5, 5] [True, False, True, True]). x = y"
    by simp
  from m z_score_constant_fails [OF this] show ?thesis by blast
qed

text \<open>
  C10. The export step writes, for every subject, the T1w volume to the T1w-named path and
  again the T1w volume to the T2w-named path, and nothing else; it succeeds only when every
  subject has a T1w volume, and its result is the same whatever the subjects' T2w volumes
  are.
\<close>

theorem export_writes_T1w_to_both_paths:
  assumes "export_images nm imgs w = Inr w'"
  shows "w' = w\<lparr>written := written w @
            concat (map (\<lambda>img.
              [(the (images img T1w), save_to nm (img_id img) ''_T1w.nii.gz'', False),
               (the (images img T1w), save_to nm (img_id img) ''_T2w.nii.gz'', False)]) imgs)\<rparr> \<and>
         list_all (\<lambda>img. images img T1w \<noteq> None) imgs \<and>
         export_images nm (map (\<lambda>img. img\<lparr>images := (images img)(T2w := t2 img)\<rparr>) imgs) w
           = Inr w'"
  using export_images_Inr [OF assms] export_images_T1w [OF assms] assms
  by (simp add: export_images_T2w)

theorem export_writes_T1w_to_both_paths_witness:
  "export_images ''no'' [demo_subject 1] (initial_world demo_env :: (nat, nat, nat, nat) world) =
     Inr ((initial_world demo_env)
       \<lparr>written :=
          [(10, ''./mia-result/norm images/no-norm_s1_T1w.nii.gz'', False),
           (10, ''./mia-result/norm images/no-norm_s1_T2w.nii.gz'', False)]\<rparr>) \<and>
   export_images ''no''
     (map (\<lambda>img. img\<lparr>images := (images img)(T2w := Some 77)\<rparr>) [demo_subject 1])
     (initial_world demo_env :: (nat, nat, nat, nat) world) =
     Inr ((initial_world demo_env)
       \<lparr>written :=
          [(10, ''./mia-result/norm images/no-norm_s1_T1w.nii.gz'', False),
           (10, ''./mia-result/norm images/no-norm_s1_T2w.nii.gz'', False)]\<rparr>)"
proof -
  have h: "export_images ''no'' [demo_subject 1]
      (initial_world demo_env :: (nat, nat, nat, nat) world) =
     Inr ((initial_world demo_env)
       \<lparr>written :=
          [(10, ''./mia-result/norm images/no-norm_s1_T1w.nii.gz'', False),
           (10, ''./mia-result/norm images/no-norm_s1_T2w.nii.gz'', False)]\<rparr>)"
    by (simp add: demo_subject_def bind_err_def dict_get_def save_to_def os_path_join_def
        initial_world_def)
  from export_writes_T1w_to_both_paths [OF h, of "\<lambda>_. Some 77"] h show ?thesis
    by blast
qed

end
